theory Spec2Isabelle
  imports Complex_Main "HOL-Library.AList"
begin

section \<open>Python values and strings\<close>

text \<open>
  A Python \<^verbatim>\<open>str\<close> is a sequence of Unicode code points, so it is modelled as a list of
  natural numbers (\<open>ord\<close> of each character). \<open>len\<close> is \<open>length\<close>, a slice
  \<^verbatim>\<open>s[:n]\<close> with \<open>n \<ge> 0\<close> is \<open>take n\<close>. String constants of the source are written
  with \<open>pystr\<close> from an ASCII literal.
\<close>

type_synonym codepoint = nat
type_synonym pystr = "codepoint list"

definition pystr :: "string \<Rightarrow> pystr" where
  "pystr s = map of_char s"

text \<open>
  The code points for which CPython's \<^verbatim>\<open>str.isspace\<close> holds; \<^verbatim>\<open>str.strip()\<close> without
  argument removes exactly these from both ends. Note that U+001C..U+001F count as
  white space.
\<close>

definition is_whitespace :: "codepoint \<Rightarrow> bool" where
  "is_whitespace c \<longleftrightarrow>
     (9 \<le> c \<and> c \<le> 13) \<or> (28 \<le> c \<and> c \<le> 32) \<or> c = 133 \<or> c = 160 \<or> c = 5760 \<or>
     (8192 \<le> c \<and> c \<le> 8202) \<or> c = 8232 \<or> c = 8233 \<or> c = 8239 \<or> c = 8287 \<or> c = 12288"

definition lstrip :: "pystr \<Rightarrow> pystr" where
  "lstrip s = dropWhile is_whitespace s"

definition rstrip :: "pystr \<Rightarrow> pystr" where
  "rstrip s = rev (dropWhile is_whitespace (rev s))"

definition strip :: "pystr \<Rightarrow> pystr" where
  "strip s = rstrip (lstrip s)"

text \<open>\<^verbatim>\<open>str.isspace()\<close>: at least one character, and all of them white space.\<close>

definition isspace :: "pystr \<Rightarrow> bool" where
  "isspace s \<longleftrightarrow> s \<noteq> [] \<and> list_all is_whitespace s"

text \<open>A string has no surrounding white space: \<^verbatim>\<open>s == s.strip()\<close>.\<close>

definition trimmed :: "pystr \<Rightarrow> bool" where
  "trimmed s \<longleftrightarrow> (s = [] \<or> (\<not> is_whitespace (hd s) \<and> \<not> is_whitespace (last s)))"

text \<open>
  An ASCII control character, as the specification defines it for SSIDs and as
  \<^verbatim>\<open>validate_campus_ssid\<close> tests it: a code point below 32, or DEL (127).
\<close>

definition is_ascii_control :: "codepoint \<Rightarrow> bool" where
  "is_ascii_control c \<longleftrightarrow> c < 32 \<or> c = 127"

text \<open>
  The validators are called with arbitrary Python objects (the tests pass \<^verbatim>\<open>None\<close> and
  \<^verbatim>\<open>123\<close>). The dynamic values the model distinguishes: \<^verbatim>\<open>None\<close>, booleans, integers,
  strings and lists. \<open>truthy\<close> is Python's truth value (\<^verbatim>\<open>not x\<close> is its negation),
  \<open>py_len\<close> is \<^verbatim>\<open>len(x)\<close>, which raises \<^verbatim>\<open>TypeError\<close> on an object without length.
\<close>

datatype pyval = PNone | PBool bool | PInt int | PStr pystr | PList "pyval list"

datatype py_error = TypeError | AttributeError | OSError | InvalidToken | ValueError

fun truthy :: "pyval \<Rightarrow> bool" where
  "truthy PNone = False"
| "truthy (PBool b) = b"
| "truthy (PInt i) = (i \<noteq> 0)"
| "truthy (PStr s) = (s \<noteq> [])"
| "truthy (PList xs) = (xs \<noteq> [])"

fun is_str :: "pyval \<Rightarrow> bool" where
  "is_str (PStr s) = True"
| "is_str _ = False"

fun py_len :: "pyval \<Rightarrow> py_error + nat" where
  "py_len (PStr s) = Inr (length s)"
| "py_len (PList xs) = Inr (length xs)"
| "py_len _ = Inl TypeError"

section \<open>The validators (utils/validators.py)\<close>

text \<open>
  \<^verbatim>\<open>re.match(r'^[...]+$', s)\<close> for a character class: one or more characters of the class
  up to the end of the string, where \<^verbatim>\<open>$\<close> also matches just before one final newline.
\<close>

definition re_match_class_plus :: "(codepoint \<Rightarrow> bool) \<Rightarrow> pystr \<Rightarrow> bool" where
  "re_match_class_plus cls s =
     (let body = (if s \<noteq> [] \<and> last s = 10 then butlast s else s)
      in body \<noteq> [] \<and> list_all cls body)"

definition is_ascii_alnum :: "codepoint \<Rightarrow> bool" where
  "is_ascii_alnum c \<longleftrightarrow> (97 \<le> c \<and> c \<le> 122) \<or> (65 \<le> c \<and> c \<le> 90) \<or> (48 \<le> c \<and> c \<le> 57)"

text \<open>The class \<^verbatim>\<open>[a-zA-Z0-9._@-]\<close> of \<^verbatim>\<open>validate_username\<close>.\<close>

definition username_char :: "codepoint \<Rightarrow> bool" where
  "username_char c \<longleftrightarrow> is_ascii_alnum c \<or> c = 46 \<or> c = 95 \<or> c = 64 \<or> c = 45"

fun validate_username :: "pyval \<Rightarrow> bool" where
  "validate_username (PStr s) =
     (if s = [] then False
      else let username = strip s in
        if length username < 2 \<or> length username > 100 then False
        else if \<not> re_match_class_plus username_char username then False
        else True)"
| "validate_username _ = False"

fun validate_password :: "pyval \<Rightarrow> bool" where
  "validate_password (PStr s) =
     (if s = [] then False
      else if length s < 4 \<or> length s > 256 then False
      else if isspace s then False
      else True)"
| "validate_password _ = False"

fun validate_campus_ssid :: "pyval \<Rightarrow> bool" where
  "validate_campus_ssid (PStr s) =
     (if s = [] then False
      else let ssid = strip s in
        if length ssid < 1 \<or> length ssid > 32 then False
        else if list_ex (\<lambda>c. c < 32 \<or> c = 127) ssid then False
        else True)"
| "validate_campus_ssid _ = False"

text \<open>
  \<^verbatim>\<open>sanitize_input(input_str, max_length=1000)\<close>. \<open>max_length\<close> is a Python integer: for
  a negative one the test \<^verbatim>\<open>len(sanitized) > max_length\<close> always holds and the slice
  \<^verbatim>\<open>sanitized[:max_length]\<close> drops the last \<open>- max_length\<close> characters.
\<close>

definition py_slice_to :: "pystr \<Rightarrow> int \<Rightarrow> pystr" where
  "py_slice_to s n = (if 0 \<le> n then take (nat n) s else take (nat (int (length s) + n)) s)"

definition keep_sanitized :: "codepoint \<Rightarrow> bool" where
  "keep_sanitized c \<longleftrightarrow> c \<ge> 32 \<or> c = 9 \<or> c = 10 \<or> c = 13"

fun sanitize_input :: "pyval \<Rightarrow> int \<Rightarrow> pystr" where
  "sanitize_input (PStr s) max_length =
     (if s = [] then []
      else let sanitized = filter keep_sanitized s;
               sanitized = (if int (length sanitized) > max_length
                            then py_slice_to sanitized max_length else sanitized)
           in strip sanitized)"
| "sanitize_input _ max_length = []"

text \<open>The default argument \<^verbatim>\<open>max_length=1000\<close>.\<close>

definition sanitize_input_default :: "pyval \<Rightarrow> pystr" where
  "sanitize_input_default v = sanitize_input v 1000"

text \<open>
  \<^verbatim>\<open>clean_ssid(ssid)\<close>: only \<^verbatim>\<open>not ssid\<close> is tested before \<^verbatim>\<open>ssid.strip()\<close>, which raises
  \<^verbatim>\<open>AttributeError\<close> on a truthy object that is not a string.
\<close>

fun clean_ssid :: "pyval \<Rightarrow> py_error + pystr" where
  "clean_ssid v =
     (if \<not> truthy v then Inr []
      else case v of
        PStr s \<Rightarrow>
          (let cleaned = strip s;
               cleaned = filter (\<lambda>c. c \<ge> 32) cleaned;
               cleaned = (if length cleaned > 32 then take 32 cleaned else cleaned)
           in Inr cleaned)
      | _ \<Rightarrow> Inl AttributeError)"

text \<open>
  \<^verbatim>\<open>validate_credentials_format(username, password)\<close> returns a dictionary with five fixed
  keys, modelled as a record. After a validator has rejected a value, the error message
  is chosen with \<^verbatim>\<open>len(username)\<close>, which raises on an object without length; nothing
  in the function catches it.
\<close>

record credentials_result =
  username_valid :: bool
  password_valid :: bool
  username_error :: pystr
  password_error :: pystr
  overall_valid :: bool

definition initial_result :: credentials_result where
  "initial_result = \<lparr> username_valid = False, password_valid = False,
     username_error = [], password_error = [], overall_valid = False \<rparr>"

definition check_username :: "pyval \<Rightarrow> credentials_result \<Rightarrow> py_error + credentials_result" where
  "check_username username results =
     (if \<not> validate_username username then
        (if \<not> truthy username then
           Inr (results\<lparr>username_error := pystr ''Username cannot be empty''\<rparr>)
         else case py_len username of
           Inl e \<Rightarrow> Inl e
         | Inr n \<Rightarrow>
             if n < 2 then
               Inr (results\<lparr>username_error := pystr ''Username must be at least 2 characters''\<rparr>)
             else if n > 100 then
               Inr (results\<lparr>username_error := pystr ''Username cannot exceed 100 characters''\<rparr>)
             else
               Inr (results\<lparr>username_error := pystr ''Username contains invalid characters''\<rparr>))
      else Inr (results\<lparr>username_valid := True\<rparr>))"

definition check_password :: "pyval \<Rightarrow> credentials_result \<Rightarrow> py_error + credentials_result" where
  "check_password password results =
     (if \<not> validate_password password then
        (if \<not> truthy password then
           Inr (results\<lparr>password_error := pystr ''Password cannot be empty''\<rparr>)
         else case py_len password of
           Inl e \<Rightarrow> Inl e
         | Inr n \<Rightarrow>
             if n < 4 then
               Inr (results\<lparr>password_error := pystr ''Password must be at least 4 characters''\<rparr>)
             else if n > 256 then
               Inr (results\<lparr>password_error := pystr ''Password cannot exceed 256 characters''\<rparr>)
             else
               Inr (results\<lparr>password_error := pystr ''Password is invalid''\<rparr>))
      else Inr (results\<lparr>password_valid := True\<rparr>))"

definition validate_credentials_format :: "pyval \<Rightarrow> pyval \<Rightarrow> py_error + credentials_result" where
  "validate_credentials_format username password =
     (case check_username username initial_result of
        Inl e \<Rightarrow> Inl e
      | Inr results \<Rightarrow>
          (case check_password password results of
             Inl e \<Rightarrow> Inl e
           | Inr results \<Rightarrow>
               Inr (results\<lparr>overall_valid := username_valid results \<and> password_valid results\<rparr>)))"

section \<open>The vault (utils/storage.py)\<close>

subsection \<open>JSON values and dictionaries\<close>

text \<open>
  The records the vault stores are Python dictionaries with string keys, holding what
  \<^verbatim>\<open>json\<close> can serialise. A dictionary keeps insertion order and has one entry per key:
  an association list, where \<^verbatim>\<open>d[k] = v\<close> is \<open>AList.update\<close> (replace in place, else
  append), \<^verbatim>\<open>d.get(k)\<close> is \<open>map_of\<close> and \<^verbatim>\<open>d.update(e)\<close> stores the entries of
  \<open>e\<close> from left to right. Floating point numbers are left out.
\<close>

datatype json = JNull | JBool bool | JInt int | JStr pystr | JList "json list"
  | JDict "(pystr \<times> json) list"

type_synonym pydict = "(pystr \<times> json) list"

fun json_truthy :: "json \<Rightarrow> bool" where
  "json_truthy JNull = False"
| "json_truthy (JBool b) = b"
| "json_truthy (JInt i) = (i \<noteq> 0)"
| "json_truthy (JStr s) = (s \<noteq> [])"
| "json_truthy (JList xs) = (xs \<noteq> [])"
| "json_truthy (JDict d) = (d \<noteq> [])"

definition dict_update :: "pydict \<Rightarrow> pydict \<Rightarrow> pydict" where
  "dict_update d e = fold (\<lambda>(k, v). AList.update k v) e d"

text \<open>\<^verbatim>\<open>d.get(k, default)\<close>.\<close>

definition dict_get :: "pydict \<Rightarrow> pystr \<Rightarrow> json \<Rightarrow> json" where
  "dict_get d k dflt = (case map_of d k of None \<Rightarrow> dflt | Some v \<Rightarrow> v)"

subsection \<open>The libraries and the file system\<close>

text \<open>
  \<^verbatim>\<open>cryptography.fernet\<close> and \<^verbatim>\<open>json\<close> are not code of this repository: they are
  parameters. Byte strings are an abstract type \<open>'b\<close>, since the vault only passes them
  between the libraries and the files.
  \<^item> \<open>fernet_encrypt key entropy plaintext\<close> is \<^verbatim>\<open>Fernet(key).encrypt(plaintext)\<close>; the
    token depends on a fresh IV and the clock, the \<open>entropy\<close>.
  \<^item> \<open>fernet_decrypt key token\<close> is \<^verbatim>\<open>Fernet(key).decrypt(token)\<close>; \<open>None\<close> stands for
    the exception \<^verbatim>\<open>InvalidToken\<close>.
  \<^item> \<open>json_dumps v\<close> is \<^verbatim>\<open>json.dumps(v, indent=2).encode()\<close>.
  \<^item> \<open>json_loads b\<close> is \<^verbatim>\<open>json.loads(b.decode())\<close>; \<open>None\<close> stands for the exception
    of either step.
\<close>

record 'b libs =
  fernet_encrypt :: "'b \<Rightarrow> nat \<Rightarrow> 'b \<Rightarrow> 'b"
  fernet_decrypt :: "'b \<Rightarrow> 'b \<Rightarrow> 'b option"
  json_dumps :: "json \<Rightarrow> 'b"
  json_loads :: "'b \<Rightarrow> json option"

text \<open>
  The storage directory. \<open>entries\<close> are the files directly in it, in the order
  \<^verbatim>\<open>os.listdir\<close> reports them. A file name is joined to the directory with
  \<^verbatim>\<open>os.path.join\<close>; a name with a path separator (as in the secure-data key \<^verbatim>\<open>"../x"\<close>)
  reaches a file that is not listed under that name: those are the \<open>others\<close>, kept
  under the name as written. What separates depends on the host, and the code runs on
  both kinds (\<^verbatim>\<open>platform.system() == "Windows"\<close>): \<^verbatim>\<open>/\<close> everywhere, on Windows
  (\<open>windows\<close>) also the backslash and the colon of a drive or stream. Names are
  compared as written. \<open>denied op name\<close> says that the operating system refuses the
  operation on that file (the call raises \<^verbatim>\<open>OSError\<close>). File permissions
  (\<^verbatim>\<open>_set_secure_permissions\<close>, whose failures the code ignores) are not modelled. A
  write either fails leaving the file as it was, or stores the whole content.
\<close>

datatype fsop = OpRead | OpWrite | OpRemove | OpList

record 'b fs =
  windows :: bool
  dir_exists :: bool
  entries :: "(pystr \<times> 'b) list"
  others :: "(pystr \<times> 'b) list"
  denied :: "fsop \<Rightarrow> pystr \<Rightarrow> bool"

definition is_plain :: "'b fs \<Rightarrow> pystr \<Rightarrow> bool" where
  "is_plain f name \<longleftrightarrow> 47 \<notin> set name \<and> (windows f \<longrightarrow> 92 \<notin> set name \<and> 58 \<notin> set name)"

definition lookup_file :: "'b fs \<Rightarrow> pystr \<Rightarrow> 'b option" where
  "lookup_file f name =
     (if is_plain f name then map_of (entries f) name else map_of (others f) name)"

text \<open>\<^verbatim>\<open>os.path.exists\<close>.\<close>

definition path_exists :: "'b fs \<Rightarrow> pystr \<Rightarrow> bool" where
  "path_exists f name \<longleftrightarrow> lookup_file f name \<noteq> None"

text \<open>\<^verbatim>\<open>open(path, 'rb').read()\<close>.\<close>

definition read_file :: "'b fs \<Rightarrow> pystr \<Rightarrow> py_error + 'b" where
  "read_file f name =
     (if denied f OpRead name then Inl OSError
      else case lookup_file f name of None \<Rightarrow> Inl OSError | Some c \<Rightarrow> Inr c)"

text \<open>\<^verbatim>\<open>open(path, 'wb').write(content)\<close>.\<close>

definition write_file :: "'b fs \<Rightarrow> pystr \<Rightarrow> 'b \<Rightarrow> py_error + 'b fs" where
  "write_file f name content =
     (if denied f OpWrite name \<or> (is_plain f name \<and> \<not> dir_exists f) then Inl OSError
      else if is_plain f name then Inr (f\<lparr>entries := AList.update name content (entries f)\<rparr>)
      else Inr (f\<lparr>others := AList.update name content (others f)\<rparr>))"

text \<open>\<^verbatim>\<open>os.remove(path)\<close>.\<close>

definition remove_file :: "'b fs \<Rightarrow> pystr \<Rightarrow> py_error + 'b fs" where
  "remove_file f name =
     (if denied f OpRemove name \<or> lookup_file f name = None then Inl OSError
      else if is_plain f name then Inr (f\<lparr>entries := AList.delete name (entries f)\<rparr>)
      else Inr (f\<lparr>others := AList.delete name (others f)\<rparr>))"

text \<open>\<^verbatim>\<open>os.listdir(self.storage_dir)\<close>.\<close>

definition listdir :: "'b fs \<Rightarrow> py_error + pystr list" where
  "listdir f =
     (if \<not> dir_exists f \<or> denied f OpList [] then Inl OSError
      else Inr (map fst (entries f)))"

definition endswith :: "pystr \<Rightarrow> pystr \<Rightarrow> bool" where
  "endswith s suffix \<longleftrightarrow>
     length suffix \<le> length s \<and> drop (length s - length suffix) s = suffix"

subsection \<open>SecureStorage\<close>

text \<open>
  The object holds the paths, fixed names in the storage directory, and the cipher:
  \<open>cipher\<close> is the key of the \<^verbatim>\<open>Fernet\<close> instance, \<open>None\<close> when \<^verbatim>\<open>self.cipher\<close> is
  \<^verbatim>\<open>None\<close>.
\<close>

record 'b storage =
  cipher :: "'b option"

definition key_file :: pystr where
  "key_file = pystr ''storage.key''"

definition data_file :: pystr where
  "data_file = pystr ''credentials.dat''"

definition config_file :: pystr where
  "config_file = pystr ''config.json''"

text \<open>
  \<^verbatim>\<open>_get_machine_seed\<close> reads the platform and the process environment: \<open>system\<close> is
  \<^verbatim>\<open>platform.system()\<close>, \<open>machine\<close> is \<^verbatim>\<open>platform.machine()\<close>, \<open>environ\<close> is
  \<^verbatim>\<open>os.environ\<close>. The components are appended to a list and joined with the empty
  string. None of the calls can raise, so the handler's fallback seed is not reached.
\<close>

record host =
  system :: pystr
  machine :: pystr
  environ :: "pystr \<rightharpoonup> pystr"

text \<open>\<^verbatim>\<open>os.environ.get(k, default)\<close>.\<close>

definition environ_get :: "host \<Rightarrow> pystr \<Rightarrow> pystr \<Rightarrow> pystr" where
  "environ_get h k dflt = (case environ h k of None \<Rightarrow> dflt | Some v \<Rightarrow> v)"

text \<open>\<^verbatim>\<open>sep.join(parts)\<close>.\<close>

fun join_str :: "pystr \<Rightarrow> pystr list \<Rightarrow> pystr" where
  "join_str sep [] = []"
| "join_str sep [x] = x"
| "join_str sep (x # y # ys) = x @ sep @ join_str sep (y # ys)"

definition get_machine_seed :: "host \<Rightarrow> pystr" where
  "get_machine_seed h =
     (let seed_components = [];
          seed_components = seed_components @ [system h];
          seed_components = seed_components @ [machine h];
          seed_components = seed_components @
            [environ_get h (pystr ''USERNAME'') (environ_get h (pystr ''USER'') (pystr ''unknown''))];
          seed_components = seed_components @ [pystr ''campus-wifi-connector-v1'']
      in join_str [] seed_components)"

text \<open>
  \<^verbatim>\<open>save_credentials\<close>. \<open>ts\<close> is the string \<^verbatim>\<open>_get_timestamp()\<close> returns, \<open>entropy\<close>
  what the cipher draws. The whole body is inside \<^verbatim>\<open>try\<close>: every exception becomes the
  result \<open>False\<close>.
\<close>

definition credentials_record :: "pystr \<Rightarrow> pystr \<Rightarrow> pystr \<Rightarrow> bool \<Rightarrow> pystr \<Rightarrow> pydict" where
  "credentials_record username password campus remember ts =
     [(pystr ''username'', JStr username),
      (pystr ''password'', JStr password),
      (pystr ''campus'', JStr campus),
      (pystr ''remember'', JBool remember),
      (pystr ''version'', JStr (pystr ''1.0'')),
      (pystr ''created_at'', JStr ts)]"

definition save_credentials ::
  "'b storage \<Rightarrow> 'b libs \<Rightarrow> pystr \<Rightarrow> nat \<Rightarrow> 'b fs
     \<Rightarrow> pystr \<Rightarrow> pystr \<Rightarrow> pystr \<Rightarrow> bool \<Rightarrow> pydict option \<Rightarrow> bool \<times> 'b fs" where
  "save_credentials st L ts entropy f username password campus remember additional_data =
     (case cipher st of
        None \<Rightarrow> (False, f)
      | Some key \<Rightarrow>
          (let data = credentials_record username password campus remember ts;
               data = (case additional_data of
                         None \<Rightarrow> data
                       | Some a \<Rightarrow> if a \<noteq> [] then dict_update data a else data);
               json_data = json_dumps L (JDict data);
               encrypted_data = fernet_encrypt L key entropy json_data
           in case write_file f data_file encrypted_data of
                Inl e \<Rightarrow> (False, f)
              | Inr f' \<Rightarrow> (True, f')))"

text \<open>
  \<^verbatim>\<open>load_credentials\<close>: the body with its exceptions as values, and the function, whose
  handler turns every exception into \<open>None\<close>.
\<close>

definition load_credentials_body :: "'b storage \<Rightarrow> 'b libs \<Rightarrow> 'b fs \<Rightarrow> py_error + pydict option" where
  "load_credentials_body st L f =
     (if \<not> path_exists f data_file then Inr None
      else case cipher st of
        None \<Rightarrow> Inr None
      | Some key \<Rightarrow>
          (case read_file f data_file of
             Inl e \<Rightarrow> Inl e
           | Inr encrypted_data \<Rightarrow>
               (case fernet_decrypt L key encrypted_data of
                  None \<Rightarrow> Inl InvalidToken
                | Some decrypted_data \<Rightarrow>
                    (case json_loads L decrypted_data of
                       None \<Rightarrow> Inl ValueError
                     | Some (JDict data) \<Rightarrow>
                         if \<not> json_truthy (dict_get data (pystr ''remember'') (JBool False))
                         then Inr (Some (AList.update (pystr ''password'') (JStr []) data))
                         else Inr (Some data)
                     | Some _ \<Rightarrow> Inr None))))"

definition load_credentials :: "'b storage \<Rightarrow> 'b libs \<Rightarrow> 'b fs \<Rightarrow> pydict option" where
  "load_credentials st L f =
     (case load_credentials_body st L f of Inl e \<Rightarrow> None | Inr r \<Rightarrow> r)"

text \<open>
  \<^verbatim>\<open>clear_credentials\<close>, \<^verbatim>\<open>clear_config\<close>, \<^verbatim>\<open>delete_secure_data\<close> and the key-file
  step of \<^verbatim>\<open>clear_all_data\<close> have the same body on different paths: remove the file if
  it exists, answer \<open>True\<close>; answer \<open>False\<close> if that raised.
\<close>

definition remove_if_exists :: "'b fs \<Rightarrow> pystr \<Rightarrow> bool \<times> 'b fs" where
  "remove_if_exists f name =
     (if path_exists f name then
        (case remove_file f name of Inl e \<Rightarrow> (False, f) | Inr f' \<Rightarrow> (True, f'))
      else (True, f))"

definition clear_credentials :: "'b fs \<Rightarrow> bool \<times> 'b fs" where
  "clear_credentials f = remove_if_exists f data_file"

text \<open>
  \<^verbatim>\<open>save_config\<close> assigns into the dictionary it is given before it writes, so the
  caller's object is changed whatever the write does; the function returns the result
  and the dictionary as it is after the call.
\<close>

definition save_config :: "'b libs \<Rightarrow> pystr \<Rightarrow> 'b fs \<Rightarrow> pydict \<Rightarrow> bool \<times> pydict \<times> 'b fs" where
  "save_config L ts f config =
     (let config = AList.update (pystr ''version'') (JStr (pystr ''1.0'')) config;
          config = AList.update (pystr ''updated_at'') (JStr ts) config
      in case write_file f config_file (json_dumps L (JDict config)) of
           Inl e \<Rightarrow> (False, config, f)
         | Inr f' \<Rightarrow> (True, config, f'))"


definition clear_config :: "'b fs \<Rightarrow> bool \<times> 'b fs" where
  "clear_config f = remove_if_exists f config_file"

text \<open>The file of a secure-data key: \<^verbatim>\<open>f'{key}.dat'\<close>.\<close>

definition secure_file :: "pystr \<Rightarrow> pystr" where
  "secure_file key = key @ pystr ''.dat''"

definition save_secure_data ::
  "'b storage \<Rightarrow> 'b libs \<Rightarrow> pystr \<Rightarrow> nat \<Rightarrow> 'b fs \<Rightarrow> pystr \<Rightarrow> json \<Rightarrow> bool \<times> 'b fs" where
  "save_secure_data st L ts entropy f key data =
     (case cipher st of
        None \<Rightarrow> (False, f)
      | Some k \<Rightarrow>
          (let data_to_save =
                 [(pystr ''key'', JStr key), (pystr ''data'', data),
                  (pystr ''version'', JStr (pystr ''1.0'')), (pystr ''created_at'', JStr ts)];
               json_data = json_dumps L (JDict data_to_save);
               encrypted_data = fernet_encrypt L k entropy json_data
           in case write_file f (secure_file key) encrypted_data of
                Inl e \<Rightarrow> (False, f)
              | Inr f' \<Rightarrow> (True, f')))"

text \<open>
  \<^verbatim>\<open>load_secure_data\<close>: \<^verbatim>\<open>stored_data.get('data', {})\<close> raises on a value that is not a
  dictionary; the handler returns \<open>None\<close> for every exception.
\<close>

definition load_secure_data :: "'b storage \<Rightarrow> 'b libs \<Rightarrow> 'b fs \<Rightarrow> pystr \<Rightarrow> json option" where
  "load_secure_data st L f key =
     (if \<not> path_exists f (secure_file key) then None
      else case cipher st of
        None \<Rightarrow> None
      | Some k \<Rightarrow>
          (case read_file f (secure_file key) of
             Inl e \<Rightarrow> None
           | Inr encrypted_data \<Rightarrow>
               (case fernet_decrypt L k encrypted_data of
                  None \<Rightarrow> None
                | Some decrypted_data \<Rightarrow>
                    (case json_loads L decrypted_data of
                       Some (JDict stored_data) \<Rightarrow> Some (dict_get stored_data (pystr ''data'') (JDict []))
                     | _ \<Rightarrow> None))))"

definition delete_secure_data :: "'b fs \<Rightarrow> pystr \<Rightarrow> bool \<times> 'b fs" where
  "delete_secure_data f key = remove_if_exists f (secure_file key)"

text \<open>
  \<^verbatim>\<open>clear_all_data\<close>. The key file has a \<^verbatim>\<open>try\<close> of its own. The loop over
  \<^verbatim>\<open>os.listdir\<close> is inside one \<^verbatim>\<open>try\<close>: the first \<^verbatim>\<open>os.remove\<close> that raises ends the
  loop, the files removed before stay removed, the files after it are not visited.
\<close>

definition clear_key_file :: "'b fs \<Rightarrow> bool \<times> 'b fs" where
  "clear_key_file f = remove_if_exists f key_file"

text \<open>The loop's test: \<^verbatim>\<open>file.endswith('.dat') and file != 'credentials.dat'\<close>.\<close>

definition is_secure_name :: "pystr \<Rightarrow> bool" where
  "is_secure_name file \<longleftrightarrow> endswith file (pystr ''.dat'') \<and> file \<noteq> pystr ''credentials.dat''"

fun remove_secure_files :: "'b fs \<Rightarrow> pystr list \<Rightarrow> bool \<times> 'b fs" where
  "remove_secure_files f [] = (True, f)"
| "remove_secure_files f (file # files) =
     (if is_secure_name file then
        (case remove_file f file of
           Inl e \<Rightarrow> (False, f)
         | Inr f' \<Rightarrow> remove_secure_files f' files)
      else remove_secure_files f files)"

definition clear_secure_files :: "'b fs \<Rightarrow> bool \<times> 'b fs" where
  "clear_secure_files f =
     (case listdir f of
        Inl e \<Rightarrow> (False, f)
      | Inr files \<Rightarrow> remove_secure_files f files)"

definition clear_all_data :: "'b fs \<Rightarrow> bool \<times> 'b fs" where
  "clear_all_data f =
     (let success = True;
          (ok, f) = clear_credentials f;
          success = (if \<not> ok then False else success);
          (ok, f) = clear_config f;
          success = (if \<not> ok then False else success);
          (ok, f) = clear_key_file f;
          success = (if \<not> ok then False else success);
          (ok, f) = clear_secure_files f;
          success = (if \<not> ok then False else success)
      in (success, f))"





subsection \<open>Stand-ins for the libraries\<close>

text \<open>
  For concrete runs of the vault the libraries are replaced by small stand-ins over the
  byte-string type \<open>json\<close>: serialising is the identity, and a token is the key, the
  entropy and the plaintext side by side, accepted only under the same key.
\<close>

definition demo_decrypt :: "json \<Rightarrow> json \<Rightarrow> json option" where
  "demo_decrypt key token =
     (case token of
        JList [k, e, m] \<Rightarrow> if k = key then Some m else None
      | _ \<Rightarrow> None)"

definition demo_libs :: "json libs" where
  "demo_libs = \<lparr> fernet_encrypt = (\<lambda>key entropy m. JList [key, JInt (int entropy), m]),
                  fernet_decrypt = demo_decrypt,
                  json_dumps = (\<lambda>v. v),
                  json_loads = Some \<rparr>"

definition empty_fs :: "'b fs" where
  "empty_fs = \<lparr> windows = False, dir_exists = True, entries = [], others = [],
                 denied = (\<lambda>op name. False) \<rparr>"

definition demo_key :: json where
  "demo_key = JStr (pystr ''key'')"

definition demo_record :: "bool \<Rightarrow> pydict" where
  "demo_record remember =
     credentials_record (pystr ''testuser'') (pystr ''testpass'') (pystr ''TestCampus'') remember
       (pystr ''2025-01-01T12:00:00'')"

definition demo_fs :: "json \<Rightarrow> json fs" where
  "demo_fs content = empty_fs\<lparr>entries := [(data_file, content)]\<rparr>"




section \<open>The authentication service (services/auth\_service.py)\<close>

text \<open>
  The state of an \<^verbatim>\<open>AuthService\<close>. \<open>server_enabled\<close> is
  \<^verbatim>\<open>config.get('auth_server', {}).get('enabled', False)\<close>. Clock readings
  (\<^verbatim>\<open>time.time()\<close>) are real numbers of seconds. A token is kept abstract: the local one
  is determined by the user name and the clock, the server's is the JSON value of the
  reply.
\<close>

datatype token = LocalToken pystr real | ServerToken json
















section \<open>Properties of the validators\<close>

subsection \<open>White space stripping\<close>

lemma rstrip_take: "rstrip s = take (length s - length (takeWhile is_whitespace (rev s))) s"
  by (simp add: rstrip_def dropWhile_eq_drop rev_drop)

lemma set_strip: "set (strip s) \<subseteq> set s"
proof -
  have "set (rstrip (lstrip s)) \<subseteq> set (lstrip s)"
    unfolding rstrip_take by (rule set_take_subset)
  moreover have "set (lstrip s) \<subseteq> set s"
    unfolding lstrip_def by (auto dest: set_dropWhileD)
  ultimately show ?thesis unfolding strip_def by blast
qed

lemma length_strip: "length (strip s) \<le> length s"
proof -
  have "length (rstrip (lstrip s)) \<le> length (lstrip s)"
    by (simp add: rstrip_take)
  moreover have "length (lstrip s) \<le> length s"
    unfolding lstrip_def by (rule length_dropWhile_le)
  ultimately show ?thesis unfolding strip_def by simp
qed

lemma trimmed_strip: "trimmed (strip s)"
proof (cases "strip s = []")
  case True
  then show ?thesis by (simp add: trimmed_def)
next
  case False
  let ?t = "lstrip s"
  from False have ne: "rstrip ?t \<noteq> []" by (simp add: strip_def)
  then have tne: "?t \<noteq> []" by (auto simp: rstrip_def)
  have "hd (rstrip ?t) = hd ?t"
  proof -
    have "rstrip ?t = take (length ?t - length (takeWhile is_whitespace (rev ?t))) ?t"
      by (rule rstrip_take)
    moreover from ne this have "0 < length ?t - length (takeWhile is_whitespace (rev ?t))"
      by (cases "length ?t - length (takeWhile is_whitespace (rev ?t))") simp_all
    ultimately show ?thesis by simp
  qed
  moreover have "\<not> is_whitespace (hd ?t)"
    using tne unfolding lstrip_def by (rule hd_dropWhile)
  moreover have "\<not> is_whitespace (last (rstrip ?t))"
  proof -
    from ne have "dropWhile is_whitespace (rev ?t) \<noteq> []" by (simp add: rstrip_def)
    then have "\<not> is_whitespace (hd (dropWhile is_whitespace (rev ?t)))"
      by (rule hd_dropWhile)
    then show ?thesis
      using \<open>dropWhile is_whitespace (rev ?t) \<noteq> []\<close> by (simp add: rstrip_def last_rev)
  qed
  ultimately show ?thesis by (simp add: trimmed_def strip_def)
qed

lemma strip_trimmed: "trimmed s \<Longrightarrow> strip s = s"
proof -
  assume t: "trimmed s"
  show ?thesis
  proof (cases "s = []")
    case True
    then show ?thesis by (simp add: strip_def lstrip_def rstrip_def)
  next
    case False
    with t have h: "\<not> is_whitespace (hd s)" and l: "\<not> is_whitespace (last s)"
      by (simp_all add: trimmed_def)
    from h False have "lstrip s = s"
      by (simp add: lstrip_def dropWhile_eq_self_iff)
    moreover have "rstrip s = s"
    proof -
      from l False have "dropWhile is_whitespace (rev s) = rev s"
        by (simp add: dropWhile_eq_self_iff hd_rev)
      then show ?thesis by (simp add: rstrip_def)
    qed
    ultimately show ?thesis by (simp add: strip_def)
  qed
qed

lemma strip_idem: "strip (strip s) = strip s"
  by (rule strip_trimmed) (rule trimmed_strip)

lemma length_py_slice_to: "0 \<le> n \<Longrightarrow> int (length (py_slice_to s n)) \<le> n"
  by (simp add: py_slice_to_def)

lemma set_py_slice_to: "set (py_slice_to s n) \<subseteq> set s"
  by (simp add: py_slice_to_def set_take_subset)

lemma sanitize_input_length: "0 \<le> m \<Longrightarrow> int (length (sanitize_input v m)) \<le> m"
proof (cases v)
  case (PStr s)
  assume m: "0 \<le> m"
  let ?f = "filter keep_sanitized s"
  let ?t = "if int (length ?f) > m then py_slice_to ?f m else ?f"
  have "int (length ?t) \<le> m"
    using m by (simp add: length_py_slice_to)
  moreover have "length (strip ?t) \<le> length ?t"
    by (rule length_strip)
  ultimately have "int (length (strip ?t)) \<le> m" by linarith
  with PStr m show ?thesis by (simp add: Let_def)
qed simp_all

lemma sanitize_input_kept: "c \<in> set (sanitize_input v m) \<Longrightarrow> keep_sanitized c"
proof (cases v)
  case (PStr s)
  assume c: "c \<in> set (sanitize_input v m)"
  let ?f = "filter keep_sanitized s"
  let ?t = "if int (length ?f) > m then py_slice_to ?f m else ?f"
  from c PStr have "c \<in> set (strip ?t)"
    by (simp add: Let_def split: if_splits)
  then have "c \<in> set ?t" using set_strip by blast
  then have "c \<in> set ?f"
    using set_py_slice_to [of ?f m] by (cases "int (length ?f) > m") auto
  then show ?thesis by simp
qed simp_all

lemma sanitize_input_trimmed: "trimmed (sanitize_input v m)"
  by (cases v) (simp_all add: Let_def trimmed_strip, simp_all add: trimmed_def)

lemma sanitize_input_idem:
  assumes "0 \<le> m"
  shows "sanitize_input (PStr (sanitize_input v m)) m = sanitize_input v m"
proof -
  let ?r = "sanitize_input v m"
  have f: "filter keep_sanitized ?r = ?r"
    by (rule filter_True) (simp add: sanitize_input_kept)
  have l: "\<not> int (length ?r) > m"
    using sanitize_input_length [OF assms, of v] by simp
  have s: "strip ?r = ?r"
    by (rule strip_trimmed) (rule sanitize_input_trimmed)
  show ?thesis
    by (simp only: sanitize_input.simps Let_def f l s if_False) simp
qed

lemma sanitize_1500: "sanitize_input_default (PStr (replicate 1500 97)) = replicate 1000 97"
proof -
  have k: "filter keep_sanitized (replicate 1500 97) = replicate 1500 97"
    by (simp add: keep_sanitized_def)
  have t: "trimmed (replicate 1000 97)"
    by (simp add: trimmed_def is_whitespace_def)
  have "sanitize_input_default (PStr (replicate 1500 97)) = strip (replicate 1000 97)"
    by (simp add: sanitize_input_default_def k py_slice_to_def Let_def)
  with strip_trimmed [OF t] show ?thesis by simp
qed

text \<open>
  Supporting facts for C4. For every string and every non-negative \<open>max_length\<close>,
  sanitising twice is sanitising once; the result keeps only code points that are at
  least 32 or tab, LF, CR, has at most \<open>max_length\<close> code points and no surrounding
  white space.
\<close>

lemma sanitize_input_idempotent:
  "sanitize_input_default (PStr (sanitize_input_default (PStr s))) = sanitize_input_default (PStr s)"
  unfolding sanitize_input_default_def by (rule sanitize_input_idem) simp

lemma sanitize_input_default_shape:
  "length (sanitize_input_default (PStr s)) \<le> 1000 \<and> trimmed (sanitize_input_default (PStr s))
   \<and> list_all (\<lambda>c. 32 \<le> c \<or> c = 9 \<or> c = 10 \<or> c = 13) (sanitize_input_default (PStr s))"
proof -
  have "int (length (sanitize_input (PStr s) 1000)) \<le> 1000"
    by (rule sanitize_input_length) simp
  moreover have "list_all keep_sanitized (sanitize_input (PStr s) 1000)"
    unfolding list_all_iff using sanitize_input_kept by blast
  ultimately show ?thesis
    unfolding sanitize_input_default_def keep_sanitized_def
    using sanitize_input_trimmed [of "PStr s" 1000] by (simp del: sanitize_input.simps)
qed

text \<open>
  C4 (code defect). The claim: \<^verbatim>\<open>sanitize_input\<close> is idempotent, strips the ASCII control
  characters except tab, LF and CR, truncates to 1000 code points, trims, and maps 1500
  letters \<open>a\<close> to 1000. Idempotence, truncation and trimming hold
  (\<open>sanitize_input_idempotent\<close>, \<open>sanitize_input_default_shape\<close>, \<open>sanitize_1500\<close>).
  The filter, however, is \<^verbatim>\<open>ord(char) >= 32 or char in '\t\n\r'\<close>: it lets DEL
  (code point 127) through, although \<^verbatim>\<open>validate_campus_ssid\<close> of the same class treats
  127 as a control character. On the input \<^verbatim>\<open>"a\x7fb"\<close> the result is the input itself.
\<close>

theorem sanitize_input_keeps_del:
  "sanitize_input_default (PStr [97, 127, 98]) = [97, 127, 98]
   \<and> is_ascii_control 127 \<and> 127 \<noteq> (9::nat) \<and> 127 \<noteq> (10::nat) \<and> 127 \<noteq> (13::nat)"
  by (simp add: sanitize_input_default_def keep_sanitized_def strip_def lstrip_def rstrip_def
      is_whitespace_def is_ascii_control_def)

subsection \<open>Values that are not strings\<close>

text \<open>
  Supporting facts for C5: each modelled validator answers \<open>False\<close> (and
  \<^verbatim>\<open>sanitize_input\<close> the empty string) on every value that is not a string, and the
  aggregate marks both fields invalid on \<^verbatim>\<open>None\<close>.
\<close>

lemma validators_reject_non_strings:
  "\<not> is_str v \<Longrightarrow>
     \<not> validate_username v \<and> \<not> validate_password v \<and> \<not> validate_campus_ssid v
     \<and> sanitize_input v m = []"
  by (cases v) simp_all

lemma validate_credentials_format_None:
  "validate_credentials_format PNone PNone =
     Inr \<lparr> username_valid = False, password_valid = False,
           username_error = pystr ''Username cannot be empty'',
           password_error = pystr ''Password cannot be empty'',
           overall_valid = False \<rparr>"
  by (simp add: validate_credentials_format_def check_username_def check_password_def
      initial_result_def)

text \<open>
  C5 (code defect). The claim: every validator, the aggregate
  \<^verbatim>\<open>validate_credentials_format\<close> included, treats a value that is not a string as
  invalid and never raises. The single validators do (\<open>validators_reject_non_strings\<close>).
  The aggregate, after \<^verbatim>\<open>validate_username(123)\<close> has answered \<open>False\<close>, evaluates
  \<^verbatim>\<open>not username\<close> (false for 123) and then \<^verbatim>\<open>len(username)\<close>, which raises
  \<^verbatim>\<open>TypeError\<close>; the function has no handler.
\<close>

theorem validate_credentials_format_raises:
  "validate_credentials_format (PInt 123) (PStr (pystr ''validpass'')) = Inl TypeError"
  by (simp add: validate_credentials_format_def check_username_def)

subsection \<open>SSID cleaning\<close>

lemma clean_ssid_str:
  "clean_ssid (PStr s) = Inr (take 32 (filter (\<lambda>c. 32 \<le> c) (strip s)))"
proof (cases "s = []")
  case True
  then show ?thesis by (simp add: strip_def lstrip_def rstrip_def)
next
  case False
  then show ?thesis by (simp add: Let_def)
qed

lemma clean_ssid_bounds:
  "\<exists>r. clean_ssid (PStr s) = Inr r \<and> length r \<le> 32 \<and> list_all (\<lambda>c. 32 \<le> c) r"
proof -
  let ?r = "take 32 (filter (\<lambda>c. 32 \<le> c) (strip s))"
  have "list_all (\<lambda>c. 32 \<le> c) ?r"
    unfolding list_all_iff by (auto dest: in_set_takeD)
  moreover have "length ?r \<le> 32"
    by simp
  ultimately show ?thesis
    using clean_ssid_str [of s] by blast
qed

lemma sanitize_input_strips_last: "sanitize_input_default (PStr [0, 32, 97]) = [97]"
  by (simp add: sanitize_input_default_def keep_sanitized_def strip_def lstrip_def rstrip_def
      is_whitespace_def)

text \<open>
  C9 (code defect). The claim: for every string, \<^verbatim>\<open>clean_ssid\<close> returns a string that is
  trimmed, free of ASCII control characters (below 32, or 127) and at most 32 code
  points long. The length bound holds, and no code point below 32 is left
  (\<open>clean_ssid_bounds\<close>). The other two parts fail on inputs the function is meant
  for. Its filter, under the comment \<^verbatim>\<open>Remove any control characters\<close>, is
  \<^verbatim>\<open>ord(char) >= 32\<close>: on \<^verbatim>\<open>"SSID\x7f"\<close>, an input of the test suite, DEL stays, and
  \<^verbatim>\<open>validate_campus_ssid\<close>, which tests \<^verbatim>\<open>ord(char) == 127\<close>, rejects the cleaned
  string. And it strips before it filters and cuts, where \<^verbatim>\<open>sanitize_input\<close> strips
  last: on \<^verbatim>\<open>"\x00 a"\<close> the result \<^verbatim>\<open>" a"\<close> starts with a space
  (\<open>sanitize_input_strips_last\<close> gives \<^verbatim>\<open>"a"\<close> there).
\<close>

theorem clean_ssid_keeps_del:
  "clean_ssid (PStr (pystr ''SSID'' @ [127])) = Inr (pystr ''SSID'' @ [127])
   \<and> is_ascii_control 127
   \<and> \<not> validate_campus_ssid (PStr (pystr ''SSID'' @ [127]))
   \<and> clean_ssid (PStr [0, 32, 97]) = Inr [32, 97]
   \<and> \<not> trimmed [32, 97]"
  by (simp add: pystr_def strip_def lstrip_def rstrip_def is_whitespace_def trimmed_def
      is_ascii_control_def)

section \<open>Properties of the vault\<close>


lemma is_plain_data_file: "is_plain f data_file"
  by (simp add: is_plain_def data_file_def pystr_def)



lemma write_file_plain:
  "is_plain f name \<Longrightarrow> dir_exists f \<Longrightarrow> \<not> denied f OpWrite name \<Longrightarrow>
     write_file f name c = Inr (f\<lparr>entries := AList.update name c (entries f)\<rparr>)"
  by (simp add: write_file_def)

lemma lookup_written:
  "is_plain f name \<Longrightarrow> lookup_file (f\<lparr>entries := AList.update name c (entries f)\<rparr>) name = Some c"
  by (simp add: lookup_file_def is_plain_def update_conv')

lemma credentials_record_fields:
  "map_of (credentials_record u p c r ts) (pystr ''username'') = Some (JStr u)"
  "map_of (credentials_record u p c r ts) (pystr ''password'') = Some (JStr p)"
  "map_of (credentials_record u p c r ts) (pystr ''campus'') = Some (JStr c)"
  "map_of (credentials_record u p c r ts) (pystr ''remember'') = Some (JBool r)"
  by (simp_all add: credentials_record_def pystr_def)

lemma save_credentials_writes:
  assumes "cipher st = Some key" and "dir_exists f" and "\<not> denied f OpWrite data_file"
  shows "save_credentials st L ts entropy f username password campus remember None =
           (True, f\<lparr>entries := AList.update data_file
              (fernet_encrypt L key entropy
                 (json_dumps L (JDict (credentials_record username password campus remember ts))))
              (entries f)\<rparr>)"
  using assms by (simp add: save_credentials_def write_file_plain is_plain_data_file)

lemma load_credentials_stored:
  assumes "lookup_file f data_file = Some c" and "\<not> denied f OpRead data_file"
    and "cipher st = Some key" and "fernet_decrypt L key c = Some plaintext"
    and "json_loads L plaintext = Some (JDict d)"
  shows "load_credentials st L f =
           Some (if json_truthy (dict_get d (pystr ''remember'') (JBool False)) then d
                 else AList.update (pystr ''password'') (JStr []) d)"
  using assms
  by (simp add: load_credentials_def load_credentials_body_def path_exists_def read_file_def)





text \<open>
  C2. Whatever record the credentials file holds, if its \<open>remember\<close> field is false,
  \<^verbatim>\<open>load_credentials\<close> returns that record with \<open>password\<close> set to the empty string.
  The redaction is on read only: \<^verbatim>\<open>save_credentials\<close> with \<open>remember=False\<close> writes the
  encryption of the record that still carries the password it was given.
\<close>

theorem redaction_on_read:
  assumes "cipher st = Some key"
  shows "(lookup_file f data_file = Some c \<and> \<not> denied f OpRead data_file
          \<and> fernet_decrypt L key c = Some plaintext \<and> json_loads L plaintext = Some (JDict d)
          \<and> map_of d (pystr ''remember'') = Some (JBool False)
          \<longrightarrow> load_credentials st L f = Some (AList.update (pystr ''password'') (JStr []) d)
              \<and> map_of (AList.update (pystr ''password'') (JStr []) d) (pystr ''password'')
                  = Some (JStr []))
     \<and> (dir_exists f \<and> \<not> denied f OpWrite data_file
          \<longrightarrow> (\<exists>f'. save_credentials st L ts entropy f username password campus False None = (True, f')
                \<and> lookup_file f' data_file =
                    Some (fernet_encrypt L key entropy
                      (json_dumps L (JDict (credentials_record username password campus False ts)))))
              \<and> map_of (credentials_record username password campus False ts) (pystr ''password'')
                  = Some (JStr password))"
proof (intro conjI impI)
  assume h: "lookup_file f data_file = Some c \<and> \<not> denied f OpRead data_file
          \<and> fernet_decrypt L key c = Some plaintext \<and> json_loads L plaintext = Some (JDict d)
          \<and> map_of d (pystr ''remember'') = Some (JBool False)"
  then have "load_credentials st L f =
           Some (if json_truthy (dict_get d (pystr ''remember'') (JBool False)) then d
                 else AList.update (pystr ''password'') (JStr []) d)"
    using assms load_credentials_stored [of f c st key L plaintext d] by simp
  with h show "load_credentials st L f = Some (AList.update (pystr ''password'') (JStr []) d)"
    by (simp add: dict_get_def)
next
  show "map_of (AList.update (pystr ''password'') (JStr []) d) (pystr ''password'') = Some (JStr [])"
    by (simp add: update_conv')
next
  assume h: "dir_exists f \<and> \<not> denied f OpWrite data_file"
  let ?c = "fernet_encrypt L key entropy
              (json_dumps L (JDict (credentials_record username password campus False ts)))"
  let ?f = "f\<lparr>entries := AList.update data_file ?c (entries f)\<rparr>"
  have "save_credentials st L ts entropy f username password campus False None = (True, ?f)"
    using assms h by (intro save_credentials_writes) simp_all
  moreover have "lookup_file ?f data_file = Some ?c"
    by (rule lookup_written) (rule is_plain_data_file)
  ultimately show "\<exists>f'. save_credentials st L ts entropy f username password campus False None = (True, f')
                \<and> lookup_file f' data_file = Some ?c"
    by blast
next
  show "map_of (credentials_record username password campus False ts) (pystr ''password'')
          = Some (JStr password)"
    by (rule credentials_record_fields)
qed

lemma demo_fs_facts:
  "lookup_file (demo_fs c) data_file = Some c"
  "dir_exists (demo_fs c)"
  "\<not> denied (demo_fs c) op name"
  by (simp_all add: demo_fs_def empty_fs_def lookup_file_def is_plain_data_file)

theorem redaction_on_read_witness:
  "load_credentials \<lparr>cipher = Some demo_key\<rparr> demo_libs
     (demo_fs (JList [demo_key, JInt 7, JDict (demo_record False)]))
     = Some (AList.update (pystr ''password'') (JStr []) (demo_record False))
   \<and> map_of (demo_record False) (pystr ''password'') = Some (JStr (pystr ''testpass''))
   \<and> (\<exists>f'. save_credentials \<lparr>cipher = Some demo_key\<rparr> demo_libs (pystr ''2025-01-01T12:00:00'') 7
              (demo_fs (JList [demo_key, JInt 7, JDict (demo_record False)]))
              (pystr ''testuser'') (pystr ''testpass'') (pystr ''TestCampus'') False None = (True, f')
          \<and> lookup_file f' data_file = Some (JList [demo_key, JInt 7, JDict (demo_record False)]))"
proof -
  let ?c = "JList [demo_key, JInt 7, JDict (demo_record False)]"
  have k: "cipher \<lparr>cipher = Some demo_key\<rparr> = Some demo_key"
    by simp
  have h1: "lookup_file (demo_fs ?c) data_file = Some ?c \<and> \<not> denied (demo_fs ?c) OpRead data_file
          \<and> fernet_decrypt demo_libs demo_key ?c = Some (JDict (demo_record False))
          \<and> json_loads demo_libs (JDict (demo_record False)) = Some (JDict (demo_record False))
          \<and> map_of (demo_record False) (pystr ''remember'') = Some (JBool False)"
    by (simp add: demo_fs_facts demo_libs_def demo_decrypt_def demo_record_def
        credentials_record_fields)
  have h2: "dir_exists (demo_fs ?c) \<and> \<not> denied (demo_fs ?c) OpWrite data_file"
    by (simp add: demo_fs_facts)
  have e: "fernet_encrypt demo_libs demo_key 7 (json_dumps demo_libs (JDict (demo_record False))) = ?c"
    by (simp add: demo_libs_def)
  from redaction_on_read [OF k, of "demo_fs ?c" ?c demo_libs "JDict (demo_record False)"
      "demo_record False" "pystr ''2025-01-01T12:00:00''" 7 "pystr ''testuser''"
      "pystr ''testpass''" "pystr ''TestCampus''"] h1 h2
  show ?thesis
    unfolding e demo_record_def [symmetric] by blast
qed

text \<open>
  C3. If the content of the credentials file is not a valid token under the vault's key
  (\<^verbatim>\<open>Fernet.decrypt\<close> raises \<^verbatim>\<open>InvalidToken\<close>), \<^verbatim>\<open>load_credentials\<close> returns \<open>None\<close>:
  the exception of the body, \<^verbatim>\<open>InvalidToken\<close> or the \<^verbatim>\<open>OSError\<close> of an unreadable file,
  is caught, and no part of a record is returned. The witness reads a token written
  under another key: absent under the vault's key, the full record under its own.
\<close>

theorem load_credentials_fails_closed:
  assumes "lookup_file f data_file = Some c" and "cipher st = Some key"
    and "fernet_decrypt L key c = None"
  shows "load_credentials st L f = None
         \<and> (load_credentials_body st L f = Inl InvalidToken
            \<or> load_credentials_body st L f = Inl OSError)"
  using assms
  by (simp add: load_credentials_def load_credentials_body_def path_exists_def read_file_def)

theorem load_credentials_fails_closed_witness:
  "load_credentials \<lparr>cipher = Some demo_key\<rparr> demo_libs
     (demo_fs (JList [JStr (pystr ''other''), JInt 7, JDict (demo_record True)])) = None
   \<and> load_credentials \<lparr>cipher = Some (JStr (pystr ''other''))\<rparr> demo_libs
     (demo_fs (JList [JStr (pystr ''other''), JInt 7, JDict (demo_record True)]))
       = Some (demo_record True)"
proof -
  let ?c = "JList [JStr (pystr ''other''), JInt 7, JDict (demo_record True)]"
  have "lookup_file (demo_fs ?c) data_file = Some ?c"
    by (rule demo_fs_facts)
  moreover have "cipher \<lparr>cipher = Some demo_key\<rparr> = Some demo_key"
    by simp
  moreover have "fernet_decrypt demo_libs demo_key ?c = None"
    by (simp add: demo_libs_def demo_decrypt_def demo_key_def pystr_def)
  ultimately have "load_credentials \<lparr>cipher = Some demo_key\<rparr> demo_libs (demo_fs ?c) = None"
    by (rule load_credentials_fails_closed [THEN conjunct1])
  moreover have "load_credentials \<lparr>cipher = Some (JStr (pystr ''other''))\<rparr> demo_libs (demo_fs ?c)
      = Some (demo_record True)"
    using load_credentials_stored [of "demo_fs ?c" ?c "\<lparr>cipher = Some (JStr (pystr ''other''))\<rparr>"
        "JStr (pystr ''other'')" demo_libs "JDict (demo_record True)" "demo_record True"]
    by (simp add: demo_fs_facts demo_libs_def demo_decrypt_def dict_get_def demo_record_def
        credentials_record_fields)
  ultimately show ?thesis by simp
qed

text \<open>
  C8. \<^verbatim>\<open>_get_machine_seed\<close> is a function of the host alone (platform name, machine
  architecture, process environment), so every call on one host returns the same
  string: the platform name, the architecture, the user name (\<^verbatim>\<open>USERNAME\<close>, else
  \<^verbatim>\<open>USER\<close>, else \<^verbatim>\<open>"unknown"\<close>) and the constant \<^verbatim>\<open>campus-wifi-connector-v1\<close>, in
  this order with nothing between them.
\<close>

theorem get_machine_seed_value:
  "get_machine_seed h =
     system h @ machine h
     @ (case environ h (pystr ''USERNAME'') of
          Some u \<Rightarrow> u
        | None \<Rightarrow> (case environ h (pystr ''USER'') of Some u \<Rightarrow> u | None \<Rightarrow> pystr ''unknown''))
     @ pystr ''campus-wifi-connector-v1''"
  by (simp add: get_machine_seed_def environ_get_def split: option.split)

text \<open>
  C10. After \<^verbatim>\<open>save_config(config)\<close>, whether or not the file was written, the
  caller's dictionary maps \<open>version\<close> to \<^verbatim>\<open>'1.0'\<close> and \<open>updated_at\<close> to the time
  stamp, replacing what it held there, and maps every other key as before.
\<close>

theorem save_config_mutates_argument:
  "map_of (fst (snd (save_config L ts f config)))
     = (map_of config)(pystr ''version'' \<mapsto> JStr (pystr ''1.0''), pystr ''updated_at'' \<mapsto> JStr ts)"
  by (simp add: save_config_def Let_def update_conv' split: sum.split)

subsection \<open>Clearing the vault\<close>

























lemmas fs_eval = clear_all_data_def clear_credentials_def clear_config_def clear_key_file_def
  remove_if_exists_def path_exists_def lookup_file_def is_plain_def remove_file_def
  clear_secure_files_def listdir_def is_secure_name_def endswith_def
  key_file_def data_file_def config_file_def pystr_def empty_fs_def







text \<open>
  A key with a path separator: \<^verbatim>\<open>save_secure_data("../x", ...)\<close> succeeds,
  \<^verbatim>\<open>clear_all_data\<close> returns true, and the data still loads. On Windows the same
  holds of a key with a backslash or a colon, which is why such a name is not plain
  there.
\<close>

lemma clear_all_data_misses_outside_files:
  "fst (save_secure_data \<lparr>cipher = Some demo_key\<rparr> demo_libs (pystr ''2025-01-01T12:00:00'') 7
          empty_fs (pystr ''../x'') (JStr (pystr ''kept'')))
   \<and> fst (clear_all_data (snd (save_secure_data \<lparr>cipher = Some demo_key\<rparr> demo_libs
          (pystr ''2025-01-01T12:00:00'') 7 empty_fs (pystr ''../x'') (JStr (pystr ''kept'')))))
   \<and> load_secure_data \<lparr>cipher = Some demo_key\<rparr> demo_libs
        (snd (clear_all_data (snd (save_secure_data \<lparr>cipher = Some demo_key\<rparr> demo_libs
          (pystr ''2025-01-01T12:00:00'') 7 empty_fs (pystr ''../x'') (JStr (pystr ''kept''))))))
        (pystr ''../x'') = Some (JStr (pystr ''kept''))"
  by (simp add: save_secure_data_def write_file_def load_secure_data_def secure_file_def
      read_file_def demo_libs_def demo_decrypt_def dict_get_def fs_eval)

lemma plain_names_by_host:
  "is_plain (f\<lparr>windows := False\<rparr>) [46, 46, 92, 120] \<and> \<not> is_plain (f\<lparr>windows := True\<rparr>) [46, 46, 92, 120]
   \<and> is_plain (f\<lparr>windows := False\<rparr>) [68, 58, 120] \<and> \<not> is_plain (f\<lparr>windows := True\<rparr>) [68, 58, 120]
   \<and> \<not> is_plain f [46, 46, 47, 120]"
  by (simp add: is_plain_def)

section \<open>Properties of the authentication service\<close>











end
